theory Spec2Isabelle
  imports Main "HOL-Library.Sublist"
begin

section \<open>Text and character classes\<close>

text \<open>
  The converter works on Python \<open>str\<close> values.  A text is modelled as a \<open>string\<close>, one
  \<open>char\<close> per code point, which covers the code points below 256.  The character classes
  are the ones Python's \<open>re\<close> module (Unicode mode) and \<open>str.splitlines\<close> use on that range.
\<close>

definition code :: "char \<Rightarrow> nat" where
  "code c = of_char c"

definition LF :: char where "LF = CHR 0x0A"
definition CR :: char where "CR = CHR 0x0D"
definition BSL :: char where "BSL = CHR 0x5C"

definition is_digit :: "char \<Rightarrow> bool" where
  "is_digit c = (48 \<le> code c \<and> code c \<le> 57)"

definition is_ascii_alnum :: "char \<Rightarrow> bool" where
  "is_ascii_alnum c =
     (is_digit c \<or> (65 \<le> code c \<and> code c \<le> 90) \<or> (97 \<le> code c \<and> code c \<le> 122))"

definition is_word :: "char \<Rightarrow> bool" where
  \<comment> \<open>\<open>\w\<close>: alphanumeric or underscore\<close>
  "is_word c =
     (is_ascii_alnum c \<or> code c = 95
      \<or> code c \<in> {170, 178, 179, 181, 185, 186, 188, 189, 190}
      \<or> (192 \<le> code c \<and> code c \<le> 214)
      \<or> (216 \<le> code c \<and> code c \<le> 246)
      \<or> 248 \<le> code c)"

definition is_space :: "char \<Rightarrow> bool" where
  \<comment> \<open>\<open>\s\<close>\<close>
  "is_space c = ((9 \<le> code c \<and> code c \<le> 13) \<or> (28 \<le> code c \<and> code c \<le> 32)
      \<or> code c = 133 \<or> code c = 160)"

definition is_linebreak :: "char \<Rightarrow> bool" where
  \<comment> \<open>the line boundaries of \<open>str.splitlines\<close>\<close>
  "is_linebreak c = ((10 \<le> code c \<and> code c \<le> 13) \<or> (28 \<le> code c \<and> code c \<le> 30)
      \<or> code c = 133)"

definition raw :: "string \<Rightarrow> string" where
  \<comment> \<open>notation for Python raw strings: \<open>%\<close> stands for the backslash\<close>
  "raw s = map (\<lambda>c. if c = CHR ''%'' then BSL else c) s"

fun contains :: "string \<Rightarrow> string \<Rightarrow> bool" where
  \<comment> \<open>Python's \<open>sub in s\<close>\<close>
  "contains sub [] = (sub = [])"
| "contains sub (x # xs) = (prefix sub (x # xs) \<or> contains sub xs)"

fun splitlines_from :: "string \<Rightarrow> string \<Rightarrow> string list" where
  "splitlines_from cur [] = (if cur = [] then [] else [cur])"
| "splitlines_from cur (c # cs) =
     (if c = CR then
        (case cs of
           [] \<Rightarrow> cur # splitlines_from [] cs
         | d # ds \<Rightarrow> if d = LF then cur # splitlines_from [] ds
                    else cur # splitlines_from [] cs)
      else if is_linebreak c then cur # splitlines_from [] cs
      else splitlines_from (cur @ [c]) cs)"

definition splitlines :: "string \<Rightarrow> string list" where
  "splitlines s = splitlines_from [] s"

fun join :: "string \<Rightarrow> string list \<Rightarrow> string" where
  "join sep [] = []"
| "join sep [x] = x"
| "join sep (x # y # ys) = x @ sep @ join sep (y # ys)"

definition list_insert :: "'a list \<Rightarrow> nat \<Rightarrow> 'a \<Rightarrow> 'a list" where
  \<comment> \<open>\<open>list.insert\<close> at a non-negative index: past the end it appends\<close>
  "list_insert xs i v = take i xs @ v # drop i xs"

fun digits :: "nat \<Rightarrow> string" where
  "digits n = (if n < 10 then [char_of (48 + n)]
               else digits (n div 10) @ [char_of (48 + n mod 10)])"

declare digits.simps [simp del]

section \<open>The fragment of \<open>re\<close> the converter uses\<close>

datatype re_error = BadPattern | BadTemplate | InvalidGroupReference nat

datatype charset = Single char | Space | NotSpace | Dot | Union charset charset

fun in_charset :: "charset \<Rightarrow> char \<Rightarrow> bool" where
  "in_charset (Single c) x = (x = c)"
| "in_charset Space x = is_space x"
| "in_charset NotSpace x = (\<not> is_space x)"
| "in_charset Dot x = (x \<noteq> LF)"
| "in_charset (Union a b) x = (in_charset a x \<or> in_charset b x)"

datatype quant = Greedy | Lazy

text \<open>
  A compiled pattern is a sequence of atoms: \<open>\b\<close>, one character of a set, or a starred
  set (greedy \<open>*\<close> or lazy \<open>*?\<close>); the flag of a starred set says that it is a capturing
  group, as in \<open>(.*?)\<close>.
\<close>

datatype atom = WordB | One charset | Star charset quant bool

type_synonym regex = "atom list"

text \<open>A match: \<open>group(0)\<close> and the captured groups, in order.\<close>

type_synonym rematch = "string \<times> string list"

definition word_before :: "char option \<Rightarrow> bool" where
  "word_before p = (case p of None \<Rightarrow> False | Some c \<Rightarrow> is_word c)"

definition word_after :: "string \<Rightarrow> bool" where
  "word_after s = (case s of [] \<Rightarrow> False | c # _ \<Rightarrow> is_word c)"

definition at_boundary :: "char option \<Rightarrow> string \<Rightarrow> bool" where
  "at_boundary p s = (word_before p \<noteq> word_after s)"

definition enter :: "bool \<Rightarrow> rematch \<Rightarrow> rematch" where
  "enter cap m = (if cap then (fst m, [] # snd m) else m)"

definition consume :: "char \<Rightarrow> bool \<Rightarrow> rematch \<Rightarrow> rematch" where
  "consume x cap m =
     (if cap then (case snd m of [] \<Rightarrow> (x # fst m, []) | g # gs \<Rightarrow> (x # fst m, (x # g) # gs))
      else (x # fst m, snd m))"

text \<open>
  The backtracking matcher, anchored at the current position: \<open>p\<close> is the character before
  the position (for \<open>\b\<close>), \<open>s\<close> the text from the position on.  A greedy star takes a
  character first and gives it back if the rest fails; a lazy star tries the rest first.
\<close>

fun rmatch :: "regex \<Rightarrow> char option \<Rightarrow> string \<Rightarrow> rematch option" where
  "rmatch [] p s = Some ([], [])"
| "rmatch (WordB # r) p s = (if at_boundary p s then rmatch r p s else None)"
| "rmatch (One cs # r) p [] = None"
| "rmatch (One cs # r) p (x # xs) =
     (if in_charset cs x then map_option (consume x False) (rmatch r (Some x) xs) else None)"
| "rmatch (Star cs Greedy cap # r) p [] = map_option (enter cap) (rmatch r p [])"
| "rmatch (Star cs Greedy cap # r) p (x # xs) =
     (if in_charset cs x then
        (case rmatch (Star cs Greedy cap # r) (Some x) xs of
           Some m \<Rightarrow> Some (consume x cap m)
         | None \<Rightarrow> map_option (enter cap) (rmatch r p (x # xs)))
      else map_option (enter cap) (rmatch r p (x # xs)))"
| "rmatch (Star cs Lazy cap # r) p [] = map_option (enter cap) (rmatch r p [])"
| "rmatch (Star cs Lazy cap # r) p (x # xs) =
     (case rmatch r p (x # xs) of
        Some m \<Rightarrow> Some (enter cap m)
      | None \<Rightarrow>
          if in_charset cs x
          then map_option (consume x cap) (rmatch (Star cs Lazy cap # r) (Some x) xs)
          else None)"

text \<open>\<open>Pattern.search\<close>: the leftmost position with a match, as (text before, match, text after).\<close>

fun search_from :: "regex \<Rightarrow> string \<Rightarrow> char option \<Rightarrow> string \<Rightarrow> (string \<times> rematch \<times> string) option" where
  "search_from re pre p [] =
     (case rmatch re p [] of Some m \<Rightarrow> Some (pre, m, []) | None \<Rightarrow> None)"
| "search_from re pre p (x # xs) =
     (case rmatch re p (x # xs) of
        Some m \<Rightarrow> Some (pre, m, drop (length (fst m)) (x # xs))
      | None \<Rightarrow> search_from re (pre @ [x]) (Some x) xs)"

definition re_search :: "regex \<Rightarrow> string \<Rightarrow> (string \<times> rematch \<times> string) option" where
  "re_search re s = search_from re [] None s"

text \<open>
  \<open>Pattern.subn\<close> with a replacement function: every leftmost non-overlapping match is
  replaced, the scan goes on behind the match, and the count of replacements is returned.
  After an empty match the next character is copied.
\<close>

function subn_from :: "regex \<Rightarrow> (rematch \<Rightarrow> string) \<Rightarrow> char option \<Rightarrow> string \<Rightarrow> string \<times> nat" where
  "subn_from re f p [] =
     (case rmatch re p [] of Some m \<Rightarrow> (f m, 1) | None \<Rightarrow> ([], 0))"
| "subn_from re f p (x # xs) =
     (case rmatch re p (x # xs) of
        None \<Rightarrow> (let (out, n) = subn_from re f (Some x) xs in (x # out, n))
      | Some m \<Rightarrow>
          if fst m = [] then
            (let (out, n) = subn_from re f (Some x) xs in (f m @ x # out, Suc n))
          else
            (let (out, n) = subn_from re f (Some (last (fst m))) (drop (length (fst m)) (x # xs))
             in (f m @ out, Suc n)))"
  by pat_completeness auto
termination
  by (relation "measure (\<lambda>(re, f, p, s). length s)") auto

definition re_subn_fun :: "regex \<Rightarrow> (rematch \<Rightarrow> string) \<Rightarrow> string \<Rightarrow> string \<times> nat" where
  "re_subn_fun re f s = subn_from re f None s"


text \<open>
  \<open>re.compile\<close> on the fragment: \<open>\b\<close>, \<open>\s\<close>, \<open>\S\<close>, \<open>.\<close>, a bracket of \<open>\s\<close> and
  \<open>\S\<close>, an escaped punctuation character, a plain character, each optionally starred
  (\<open>*\<close> or \<open>*?\<close>), and a group around one starred set.  Anything else is \<open>BadPattern\<close>.
\<close>

datatype tok = TWordB | TSet charset | TStar | TQuest | TLPar | TRPar | TLBr | TRBr

definition plain_tok :: "char \<Rightarrow> tok option" where
  "plain_tok c =
     (if c = CHR ''.'' then Some (TSet Dot)
      else if c = CHR ''*'' then Some TStar
      else if c = CHR ''?'' then Some TQuest
      else if c = CHR ''('' then Some TLPar
      else if c = CHR '')'' then Some TRPar
      else if c = CHR ''['' then Some TLBr
      else if c = CHR '']'' then Some TRBr
      else if c \<in> set ''{}+|^$'' \<or> c = BSL then None
      else Some (TSet (Single c)))"

definition escape_tok :: "char \<Rightarrow> tok option" where
  "escape_tok d =
     (if d = CHR ''b'' then Some TWordB
      else if d = CHR ''s'' then Some (TSet Space)
      else if d = CHR ''S'' then Some (TSet NotSpace)
      else if is_ascii_alnum d then None
      else Some (TSet (Single d)))"

fun lex :: "string \<Rightarrow> tok list option" where
  "lex [] = Some []"
| "lex [c] = map_option (\<lambda>t. [t]) (plain_tok c)"
| "lex (c # d # ds) =
     (if c = BSL then
        (case escape_tok d of None \<Rightarrow> None | Some t \<Rightarrow> map_option ((#) t) (lex ds))
      else
        (case plain_tok c of None \<Rightarrow> None | Some t \<Rightarrow> map_option ((#) t) (lex (d # ds))))"

fun union_of :: "charset list \<Rightarrow> charset option" where
  "union_of [] = None"
| "union_of [a] = Some a"
| "union_of (a # b # r) = map_option (Union a) (union_of (b # r))"

text \<open>Brackets: \<open>acc\<close> holds the members read since the open bracket, if one is open.\<close>

fun brackets :: "charset list option \<Rightarrow> tok list \<Rightarrow> tok list option" where
  "brackets None [] = Some []"
| "brackets (Some acc) [] = None"
| "brackets None (t # ts) =
     (if t = TLBr then brackets (Some []) ts
      else if t = TRBr then None
      else map_option ((#) t) (brackets None ts))"
| "brackets (Some acc) (t # ts) =
     (if t = TRBr then
        (case union_of acc of
           None \<Rightarrow> None
         | Some u \<Rightarrow> map_option ((#) (TSet u)) (brackets None ts))
      else if t = TSet Space then brackets (Some (acc @ [Space])) ts
      else if t = TSet NotSpace then brackets (Some (acc @ [NotSpace])) ts
      else None)"

fun star_of :: "tok list \<Rightarrow> quant option \<times> nat" where
  \<comment> \<open>the quantifier at the head of the tokens, and how many tokens it takes\<close>
  "star_of (TStar # TQuest # ts) = (Some Lazy, 2)"
| "star_of (TStar # ts) = (Some Greedy, 1)"
| "star_of ts = (None, 0)"

fun atoms :: "tok list \<Rightarrow> regex option" where
  "atoms [] = Some []"
| "atoms (t # ts) =
     (case t of
        TWordB \<Rightarrow> map_option ((#) WordB) (atoms ts)
      | TSet u \<Rightarrow>
          (case star_of ts of
             (None, k) \<Rightarrow> map_option ((#) (One u)) (atoms ts)
           | (Some q, k) \<Rightarrow> map_option ((#) (Star u q False)) (atoms (drop k ts)))
      | TLPar \<Rightarrow>
          (case ts of
             TSet u # ts' \<Rightarrow>
               (case star_of ts' of
                  (None, k) \<Rightarrow> None
                | (Some q, k) \<Rightarrow>
                    (case drop k ts' of
                       TRPar # ts'' \<Rightarrow> map_option ((#) (Star u q True)) (atoms (drop (Suc k) ts'))
                     | _ \<Rightarrow> None))
           | _ \<Rightarrow> None)
      | _ \<Rightarrow> None)"

definition re_compile :: "string \<Rightarrow> re_error + regex" where
  "re_compile pat =
     (case Option.bind (Option.bind (lex pat) (brackets None)) atoms of
        None \<Rightarrow> Inl BadPattern
      | Some re \<Rightarrow> Inr re)"

definition re_escape :: "string \<Rightarrow> string" where
  \<comment> \<open>\<open>re.escape\<close>: a backslash before each special character\<close>
  "re_escape s =
     concat (map (\<lambda>c. if c \<in> set ''()[]{}?*+-|^$.&~# '' \<or> c = BSL \<or> (9 \<le> code c \<and> code c \<le> 13)
                        then [BSL, c] else [c]) s)"

text \<open>
  Replacement templates: a backslash and a digit \<open>1\<close>..\<open>9\<close> is a group reference, any other
  character stands for itself; other escapes are outside the fragment.
\<close>

datatype titem = TLit char | TGroup nat

fun parse_template :: "string \<Rightarrow> titem list option" where
  "parse_template [] = Some []"
| "parse_template [c] = (if c = BSL then None else Some [TLit c])"
| "parse_template (c # d # ds) =
     (if c = BSL then
        (if is_digit d \<and> d \<noteq> CHR ''0'' \<and> \<not> (case ds of [] \<Rightarrow> False | e # _ \<Rightarrow> is_digit e)
         then map_option ((#) (TGroup (code d - 48))) (parse_template ds)
         else None)
      else map_option ((#) (TLit c)) (parse_template (d # ds)))"

fun ngroups :: "regex \<Rightarrow> nat" where
  "ngroups [] = 0"
| "ngroups (Star u q True # r) = Suc (ngroups r)"
| "ngroups (a # r) = ngroups r"

fun bad_group :: "nat \<Rightarrow> titem list \<Rightarrow> nat option" where
  \<comment> \<open>the first reference to a group the pattern does not have\<close>
  "bad_group n [] = None"
| "bad_group n (TGroup i # t) = (if n < i then Some i else bad_group n t)"
| "bad_group n (TLit c # t) = bad_group n t"

fun expand :: "titem list \<Rightarrow> rematch \<Rightarrow> string" where
  \<comment> \<open>a group that took no part in the match expands to the empty string\<close>
  "expand [] m = []"
| "expand (TLit c # t) m = c # expand t m"
| "expand (TGroup i # t) m =
     (if i - 1 < length (snd m) then snd m ! (i - 1) else []) @ expand t m"

definition pattern_subn :: "regex \<Rightarrow> string \<Rightarrow> string \<Rightarrow> re_error + (string \<times> nat)" where
  \<comment> \<open>\<open>Pattern.subn(repl, source)\<close> with a template string\<close>
  "pattern_subn re repl source =
     (case parse_template repl of
        None \<Rightarrow> Inl BadTemplate
      | Some t \<Rightarrow>
          (case bad_group (ngroups re) t of
             Some i \<Rightarrow> Inl (InvalidGroupReference i)
           | None \<Rightarrow> Inr (re_subn_fun re (expand t) source)))"

definition re_subn :: "string \<Rightarrow> string \<Rightarrow> string \<Rightarrow> re_error + (string \<times> nat)" where
  \<comment> \<open>\<open>re.subn(pat, repl, source)\<close>\<close>
  "re_subn pat repl source =
     (case re_compile pat of Inl e \<Rightarrow> Inl e | Inr re \<Rightarrow> pattern_subn re repl source)"

section \<open>The rules\<close>

text \<open>The module's globals: the three catalogs and the compiled header pattern.\<close>

record globals =
  WINDOW_BASE_TO_STATUSBASE_METHODS :: "string list"
  COLOR_REPLACEMENTS :: "(string \<times> string) list"
  MV_PLUGIN_COMMAND_SIGNS :: "string list"
  HEADER_BLOCK_RE :: "re_error + regex"

definition module_globals :: globals where
  "module_globals = \<lparr>
     WINDOW_BASE_TO_STATUSBASE_METHODS =
       [''drawActorSimpleStatus'',
        ''drawActorName'',
        ''drawActorClass'',
        ''drawActorNickname'',
        ''drawActorLevel'',
        ''drawActorIcons'',
        ''drawActorHp'',
        ''drawActorMp'',
        ''drawActorTp'',
        ''drawActorHpGauge'',
        ''drawActorMpGauge'',
        ''drawActorTpGauge'',
        ''placeActorName'',
        ''placeGauge''],
     COLOR_REPLACEMENTS =
       [(raw ''%bthis%.systemColor%s*%(%s*%)'', ''ColorManager.systemColor()''),
        (raw ''%bthis%.crisisColor%s*%(%s*%)'', ''ColorManager.crisisColor()''),
        (raw ''%bthis%.deathColor%s*%(%s*%)'', ''ColorManager.deathColor()''),
        (raw ''%bthis%.gaugeBackColor%s*%(%s*%)'', ''ColorManager.gaugeBackColor()''),
        (raw ''%bthis%.hpColor%s*%(%s*(.*?)%s*%)'', raw ''ColorManager.hpColor(%1)''),
        (raw ''%bthis%.mpColor%s*%(%s*(.*?)%s*%)'', raw ''ColorManager.mpColor(%1)''),
        (raw ''%bthis%.tpColor%s*%(%s*(.*?)%s*%)'', raw ''ColorManager.tpColor(%1)''),
        (raw ''%bthis%.mpCostColor%s*%(%s*%)'', ''ColorManager.mpCostColor()''),
        (raw ''%bthis%.powerUpColor%s*%(%s*%)'', ''ColorManager.powerUpColor()''),
        (raw ''%bthis%.powerDownColor%s*%(%s*%)'', ''ColorManager.powerDownColor()''),
        (raw ''%bthis%.paramchangeTextColor%s*%(%s*(.*?)%s*%)'',
         raw ''ColorManager.paramchangeTextColor(%1)''),
        (raw ''%bthis%.textColor%s*%(%s*(.*?)%s*%)'', raw ''ColorManager.textColor(%1)''),
        (raw ''%bthis%.normalColor%s*%(%s*%)'', ''ColorManager.normalColor()'')],
     MV_PLUGIN_COMMAND_SIGNS =
       [raw ''%bGame_Interpreter%.prototype%.pluginCommand%b''],
     HEADER_BLOCK_RE = re_compile (raw ''/%*:[%s%S]*?%*/'') \<rparr>"

text \<open>A loop over a catalog that stops at the first error, as an exception would.\<close>

fun for_each :: "('a \<Rightarrow> 's \<Rightarrow> re_error + 's) \<Rightarrow> 'a list \<Rightarrow> 's \<Rightarrow> re_error + 's" where
  "for_each f [] st = Inr st"
| "for_each f (x # xs) st = (case f x st of Inl e \<Rightarrow> Inl e | Inr st' \<Rightarrow> for_each f xs st')"

definition add_target_mz :: "string \<Rightarrow> string" where
  "add_target_mz header =
     (if contains ''@target'' header then header
      else
        (let lines = splitlines header in
         if lines \<noteq> [] then
           (let insert_at = (if length lines > 1 then 1 else 0)
            in join [LF] (list_insert lines insert_at '' * @target MZ''))
         else header))"

definition ensure_header_has_target_mz :: "globals \<Rightarrow> string \<Rightarrow> re_error + (string \<times> bool)" where
  "ensure_header_has_target_mz g source =
     (case HEADER_BLOCK_RE g of
        Inl e \<Rightarrow> Inl e
      | Inr re \<Rightarrow>
          (case re_search re source of
             None \<Rightarrow> Inr (source, False)
           | Some (before, m, after) \<Rightarrow>
               (let header = fst m;
                    new_header = add_target_mz header
                in if new_header \<noteq> header then Inr (before @ new_header @ after, True)
                   else Inr (source, False))))"

definition window_base_step :: "string \<Rightarrow> string \<times> string list \<Rightarrow> re_error + (string \<times> string list)" where
  \<comment> \<open>the body of the loop of \<open>replace_window_base_methods\<close>\<close>
  "window_base_step method st =
     (case re_compile (raw ''%bWindow_Base%.prototype%.'' @ re_escape method @ raw ''%b'') of
        Inl e \<Rightarrow> Inl e
      | Inr pattern \<Rightarrow>
          (if re_search pattern (fst st) \<noteq> None then
             (case pattern_subn pattern (''Window_StatusBase.prototype.'' @ method) (fst st) of
                Inl e \<Rightarrow> Inl e
              | Inr r \<Rightarrow>
                  Inr (fst r,
                       snd st @ [''Window_Base.prototype.'' @ method
                                 @ '' -> Window_StatusBase.prototype.'' @ method]))
           else Inr st))"

definition replace_window_base_methods :: "globals \<Rightarrow> string \<Rightarrow> re_error + (string \<times> string list)" where
  "replace_window_base_methods g source =
     for_each window_base_step (WINDOW_BASE_TO_STATUSBASE_METHODS g) (source, [])"

definition color_step :: "string \<times> string \<Rightarrow> string \<times> string list \<Rightarrow> re_error + (string \<times> string list)" where
  \<comment> \<open>the body of the loop of \<open>replace_colors\<close>\<close>
  "color_step entry st =
     (case re_subn (fst entry) (snd entry) (fst st) of
        Inl e \<Rightarrow> Inl e
      | Inr r \<Rightarrow>
          (if snd r > 0 then
             Inr (fst r,
                  snd st @ [fst entry @ '' -> '' @ snd entry @ '' ('' @ digits (snd r) @ ''x)''])
           else Inr st))"

definition replace_colors :: "globals \<Rightarrow> string \<Rightarrow> bool \<Rightarrow> re_error + (string \<times> string list)" where
  "replace_colors g source keep_mv_color =
     (if keep_mv_color then Inr (source, [])
      else for_each color_step (COLOR_REPLACEMENTS g) (source, []))"

definition todo :: string where
  "todo = [LF] @ ''// [MZ TODO] Detected MV-style pluginCommand. In MZ, migrate to:'' @ [LF]
          @ ''// PluginManager.registerCommand(pluginName, command, handler)'' @ [LF]
          @ ''// and use @command/@arg annotations in the header.'' @ [LF]"

definition annotate_step :: "string \<Rightarrow> string \<times> string list \<Rightarrow> re_error + (string \<times> string list)" where
  \<comment> \<open>the body of the loop of \<open>annotate_plugin_command_todos\<close>\<close>
  "annotate_step sig st =
     (case re_compile sig of
        Inl e \<Rightarrow> Inl e
      | Inr pattern \<Rightarrow>
          (if re_search pattern (fst st) \<noteq> None then
             Inr (fst (re_subn_fun pattern (\<lambda>m. todo @ fst m) (fst st)),
                  snd st @ [''Annotated MV pluginCommand for manual conversion.''])
           else Inr st))"

definition annotate_plugin_command_todos :: "globals \<Rightarrow> string \<Rightarrow> re_error + (string \<times> string list)" where
  "annotate_plugin_command_todos g source =
     for_each annotate_step (MV_PLUGIN_COMMAND_SIGNS g) (source, [])"

text \<open>
  \<open>convert_text\<close> threads the text through the four stages and collects the report.  The
  globals are passed in and handed back, so that what a call leaves behind for the next
  one is explicit.
\<close>

definition convert_text_run ::
  "string \<Rightarrow> bool \<Rightarrow> globals \<Rightarrow> (re_error + (string \<times> string list)) \<times> globals" where
  "convert_text_run source keep_mv_color g =
     ((case ensure_header_has_target_mz g source of
         Inl e \<Rightarrow> Inl e
       | Inr (source1, changed) \<Rightarrow>
           (let report1 = (if changed then [''Added '' @ [CHR 0x27] @ ''@target MZ'' @ [CHR 0x27]
                                             @ '' to plugin header.''] else [])
            in case replace_window_base_methods g source1 of
                 Inl e \<Rightarrow> Inl e
               | Inr (source2, changes2) \<Rightarrow>
                   (case replace_colors g source2 keep_mv_color of
                      Inl e \<Rightarrow> Inl e
                    | Inr (source3, changes3) \<Rightarrow>
                        (case annotate_plugin_command_todos g source3 of
                           Inl e \<Rightarrow> Inl e
                         | Inr (source4, changes4) \<Rightarrow>
                             Inr (source4, report1 @ changes2 @ changes3 @ changes4))))), g)"

definition convert_text :: "string \<Rightarrow> bool \<Rightarrow> re_error + (string \<times> string list)" where
  "convert_text source keep_mv_color = fst (convert_text_run source keep_mv_color module_globals)"

section \<open>The matches of a pattern, for stating what a substitution does\<close>





text \<open>The compiled forms of the patterns of the catalogs.\<close>

definition lits :: "string \<Rightarrow> regex" where
  "lits w = map (\<lambda>c. One (Single c)) w"

definition word_re :: "string \<Rightarrow> regex" where
  \<comment> \<open>the word \<open>w\<close> between two \<open>\b\<close>\<close>
  "word_re w = WordB # lits w @ [WordB]"

definition call_re :: "string \<Rightarrow> bool \<Rightarrow> regex" where
  \<comment> \<open>a call of \<open>this.name\<close>, with an argument or with none\<close>
  "call_re name arg =
     WordB # lits (''this.'' @ name)
     @ [Star Space Greedy False, One (Single (CHR ''(''))]
     @ (if arg then [Star Space Greedy False, Star Dot Lazy True] else [])
     @ [Star Space Greedy False, One (Single (CHR '')''))]"

definition header_re :: regex where
  "header_re = lits ''/*:'' @ [Star (Union Space NotSpace) Lazy False] @ lits ''*/''"

definition header_line :: string where
  "header_line = ''Added '' @ [CHR 0x27] @ ''@target MZ'' @ [CHR 0x27] @ '' to plugin header.''"

section \<open>Facts about the catalogs\<close>

lemmas char_defs = code_def BSL_def LF_def CR_def is_digit_def is_ascii_alnum_def is_word_def
  is_space_def is_linebreak_def

lemmas compile_defs = re_compile_def raw_def plain_tok_def escape_tok_def re_escape_def

lemma methods_eq: "WINDOW_BASE_TO_STATUSBASE_METHODS module_globals =
  [''drawActorSimpleStatus'', ''drawActorName'', ''drawActorClass'', ''drawActorNickname'',
   ''drawActorLevel'', ''drawActorIcons'', ''drawActorHp'', ''drawActorMp'', ''drawActorTp'',
   ''drawActorHpGauge'', ''drawActorMpGauge'', ''drawActorTpGauge'', ''placeActorName'',
   ''placeGauge'']"
  by (simp add: module_globals_def)

lemma header_compiled: "HEADER_BLOCK_RE module_globals = Inr header_re"
  by (simp add: module_globals_def header_re_def compile_defs lits_def char_defs)

lemma signs_eq:
  "MV_PLUGIN_COMMAND_SIGNS module_globals = [raw ''%bGame_Interpreter%.prototype%.pluginCommand%b'']"
  by (simp add: module_globals_def)

lemma sign_compiled:
  "re_compile (raw ''%bGame_Interpreter%.prototype%.pluginCommand%b'')
   = Inr (word_re ''Game_Interpreter.prototype.pluginCommand'')"
  by (simp add: word_re_def compile_defs lits_def char_defs)

lemma method_compiled:
  assumes "m \<in> set (WINDOW_BASE_TO_STATUSBASE_METHODS module_globals)"
  shows "re_compile (raw ''%bWindow_Base%.prototype%.'' @ re_escape m @ raw ''%b'')
         = Inr (word_re (''Window_Base.prototype.'' @ m))"
  using assms
  apply (simp only: methods_eq set_simps insert_iff empty_iff)
  apply (elim disjE)
  apply (simp_all add: word_re_def compile_defs lits_def char_defs)
  done

text \<open>
  The color catalog, entry by entry: the name of the helper and whether the pattern takes
  an argument.
\<close>

definition color_entry :: "string \<times> bool \<Rightarrow> string \<times> string" where
  "color_entry e =
     (case e of (name, arg) \<Rightarrow>
        if arg then (raw ''%bthis%.'' @ name @ raw ''%s*%(%s*(.*?)%s*%)'',
                     ''ColorManager.'' @ name @ raw ''(%1)'')
        else (raw ''%bthis%.'' @ name @ raw ''%s*%(%s*%)'', ''ColorManager.'' @ name @ ''()''))"

definition color_calls :: "(string \<times> bool) list" where
  "color_calls =
     [(''systemColor'', False), (''crisisColor'', False), (''deathColor'', False),
      (''gaugeBackColor'', False), (''hpColor'', True), (''mpColor'', True), (''tpColor'', True),
      (''mpCostColor'', False), (''powerUpColor'', False), (''powerDownColor'', False),
      (''paramchangeTextColor'', True), (''textColor'', True), (''normalColor'', False)]"

definition call_template :: "string \<Rightarrow> bool \<Rightarrow> titem list" where
  "call_template name arg =
     map TLit (''ColorManager.'' @ name @ ''('') @ (if arg then [TGroup 1] else []) @ [TLit (CHR '')'')]"

lemma colors_eq: "COLOR_REPLACEMENTS module_globals = map color_entry color_calls"
  by (simp add: module_globals_def color_calls_def color_entry_def raw_def)

lemma color_compiled:
  assumes "(name, arg) \<in> set color_calls"
  shows "re_compile (fst (color_entry (name, arg))) = Inr (call_re name arg)"
    and "parse_template (snd (color_entry (name, arg))) = Some (call_template name arg)"
  using assms
  apply (simp_all only: color_calls_def set_simps insert_iff empty_iff prod.inject)
  apply (elim disjE conjE; simp add: color_entry_def call_re_def call_template_def compile_defs lits_def char_defs)
  apply (elim disjE conjE; simp add: color_entry_def call_re_def call_template_def compile_defs lits_def char_defs)
  done

lemma method_template:
  assumes "m \<in> set (WINDOW_BASE_TO_STATUSBASE_METHODS module_globals)"
  shows "parse_template (''Window_StatusBase.prototype.'' @ m) = Some (map TLit (''Window_StatusBase.prototype.'' @ m))"
  using assms
  apply (simp only: methods_eq set_simps insert_iff empty_iff)
  apply (elim disjE)
  apply (simp_all add: char_defs)
  done


section \<open>Facts about the matcher\<close>




lemma rmatch_ngroups: "rmatch re p s = Some m \<Longrightarrow> length (snd m) = ngroups re"
  by (induction re p s arbitrary: m rule: rmatch.induct)
     (auto simp: consume_def enter_def split: if_splits option.splits list.splits)




lemma search_from_pre_None:
  "search_from re pre p s = None \<Longrightarrow> search_from re pre' p s = None"
  by (induction re pre p s arbitrary: pre' rule: search_from.induct)
     (auto split: option.splits)

lemma search_None_subn: "search_from re pre p s = None \<Longrightarrow> subn_from re f p s = (s, 0)"
  by (induction re pre p s rule: search_from.induct) (auto split: option.splits)







section \<open>The stages never fail\<close>


lemma bad_group_lits [simp]: "bad_group n (map TLit w) = None"
  by (induction w) auto

lemma expand_lits [simp]: "expand (map TLit w) m = w"
  by (induction w) auto


lemma ngroups_append: "ngroups (a @ b) = ngroups a + ngroups b"
  by (induction a rule: ngroups.induct) auto

lemma ngroups_lits [simp]: "ngroups (lits w) = 0"
  by (induction w) (auto simp: lits_def)

lemma bad_group_append:
  "bad_group n (a @ b) = (case bad_group n a of Some i \<Rightarrow> Some i | None \<Rightarrow> bad_group n b)"
  by (induction n a rule: bad_group.induct) auto

lemma call_template_ok: "bad_group (ngroups (call_re name arg)) (call_template name arg) = None"
  by (simp add: call_re_def call_template_def ngroups_append bad_group_append)

text \<open>The qualified names before and after the migration of a method.\<close>

definition wb_old :: "string \<Rightarrow> string" where
  "wb_old m = ''Window_Base.prototype.'' @ m"

definition wb_new :: "string \<Rightarrow> string" where
  "wb_new m = ''Window_StatusBase.prototype.'' @ m"

lemma window_base_step_eq:
  assumes "m \<in> set (WINDOW_BASE_TO_STATUSBASE_METHODS module_globals)"
  shows "window_base_step m st =
     Inr (if re_search (word_re (wb_old m)) (fst st) \<noteq> None
          then (fst (re_subn_fun (word_re (wb_old m)) (\<lambda>_. wb_new m) (fst st)),
                snd st @ [wb_old m @ '' -> '' @ wb_new m])
          else st)"
proof -
  have e: "expand (map TLit (wb_new m)) = (\<lambda>_. wb_new m)"
    by (rule ext) (simp only: expand_lits)
  have c: "re_compile (raw ''%bWindow_Base%.prototype%.'' @ re_escape m @ raw ''%b'')
           = Inr (word_re (wb_old m))"
    using method_compiled [OF assms] by (simp only: wb_old_def)
  have t: "parse_template (wb_new m) = Some (map TLit (wb_new m))"
    using method_template [OF assms] by (simp only: wb_new_def)
  have s: "pattern_subn (word_re (wb_old m)) (wb_new m) (fst st)
           = Inr (re_subn_fun (word_re (wb_old m)) (\<lambda>_. wb_new m) (fst st))"
    by (simp only: pattern_subn_def t bad_group_lits e option.case)
  have l: "''Window_Base.prototype.'' @ m @ '' -> Window_StatusBase.prototype.'' @ m
           = wb_old m @ '' -> '' @ wb_new m"
    by (simp add: wb_old_def wb_new_def)
  show ?thesis
    unfolding window_base_step_def c l
    by (simp only: wb_new_def [symmetric] s sum.case if_distrib [of Inr, symmetric])
qed

lemma color_step_eq:
  assumes "(name, arg) \<in> set color_calls"
  shows "color_step (color_entry (name, arg)) st =
     (let r = re_subn_fun (call_re name arg) (expand (call_template name arg)) (fst st) in
      Inr (if 0 < snd r
           then (fst r, snd st @ [fst (color_entry (name, arg)) @ '' -> ''
                                  @ snd (color_entry (name, arg)) @ '' ('' @ digits (snd r) @ ''x)''])
           else st))"
  unfolding color_step_def re_subn_def color_compiled [OF assms] pattern_subn_def
  by (simp add: call_template_ok Let_def)

lemma annotate_step_eq:
  "annotate_step (raw ''%bGame_Interpreter%.prototype%.pluginCommand%b'') st =
     Inr (if re_search (word_re ''Game_Interpreter.prototype.pluginCommand'') (fst st) \<noteq> None
          then (fst (re_subn_fun (word_re ''Game_Interpreter.prototype.pluginCommand'')
                       (\<lambda>m. todo @ fst m) (fst st)),
                snd st @ [''Annotated MV pluginCommand for manual conversion.''])
          else st)"
  unfolding annotate_step_def sign_compiled by simp







section \<open>The lines of the report\<close>


lemma for_each_invariant:
  assumes "for_each f xs st = Inr st'" and "P st"
    and "\<And>x a b. x \<in> set xs \<Longrightarrow> P a \<Longrightarrow> f x a = Inr b \<Longrightarrow> P b"
  shows "P st'"
  using assms
proof (induction xs arbitrary: st)
  case Nil
  then show ?case by simp
next
  case (Cons x xs)
  from Cons.prems(1) obtain st1 where s1: "f x st = Inr st1" and r: "for_each f xs st1 = Inr st'"
    by (auto split: sum.splits)
  have p1: "P st1" using Cons.prems(3) [of x st st1] Cons.prems(2) s1 by simp
  show ?case
    by (rule Cons.IH [OF r p1]) (use Cons.prems(3) in auto)
qed

text \<open>The report lines of the stages.\<close>

definition wb_line :: "string \<Rightarrow> string" where
  "wb_line m = wb_old m @ '' -> '' @ wb_new m"

definition color_line :: "string \<times> string \<Rightarrow> nat \<Rightarrow> string" where
  "color_line e n = fst e @ '' -> '' @ snd e @ '' ('' @ digits n @ ''x)''"

definition annotate_line :: string where
  "annotate_line = ''Annotated MV pluginCommand for manual conversion.''"

lemma hd_wb_line: "hd (wb_line m) = CHR ''W''"
  by (simp add: wb_line_def wb_old_def)

lemma hd_color_line: "e \<in> set (COLOR_REPLACEMENTS module_globals) \<Longrightarrow> hd (color_line e n) = BSL"
  by (auto simp: colors_eq color_line_def color_entry_def raw_def split: if_splits)

lemma window_base_lines:
  assumes "replace_window_base_methods module_globals s = Inr (t, rep)"
  shows "set rep \<subseteq> wb_line ` set (WINDOW_BASE_TO_STATUSBASE_METHODS module_globals)"
proof -
  let ?P = "\<lambda>st. set (snd st) \<subseteq> wb_line ` set (WINDOW_BASE_TO_STATUSBASE_METHODS module_globals)"
  have "?P (t, rep)"
  proof (rule for_each_invariant [OF assms [unfolded replace_window_base_methods_def], of ?P])
    show "?P (s, [])" by simp
  next
    fix x a b
    assume x: "x \<in> set (WINDOW_BASE_TO_STATUSBASE_METHODS module_globals)" and a: "?P a"
      and s: "window_base_step x a = Inr b"
    from s have "b = a \<or> snd b = snd a @ [wb_line x]"
      unfolding window_base_step_eq [OF x] wb_line_def by (auto split: if_splits)
    with a x show "?P b" by auto
  qed
  then show ?thesis by simp
qed


lemma annotate_lines:
  assumes "annotate_plugin_command_todos module_globals s = Inr (t, rep)"
  shows "set rep \<subseteq> {annotate_line}"
proof -
  from assms have "rep = [] \<or> rep = [annotate_line]"
    unfolding annotate_plugin_command_todos_def signs_eq for_each.simps annotate_step_eq
      annotate_line_def
    by (auto split: if_splits)
  then show ?thesis by auto
qed


lemmas eval_defs = re_search_def re_subn_fun_def word_re_def call_re_def header_re_def lits_def
  at_boundary_def word_before_def word_after_def consume_def enter_def char_defs
  wb_old_def wb_new_def

text \<open>A pattern, given by its source, occurs in a text; the first header block of a text.\<close>

definition occurs :: "string \<Rightarrow> string \<Rightarrow> bool" where
  "occurs pat s = (case re_compile pat of Inl e \<Rightarrow> False | Inr re \<Rightarrow> re_search re s \<noteq> None)"

definition first_header_block :: "string \<Rightarrow> (string \<times> string \<times> string) option" where
  "first_header_block s =
     (case HEADER_BLOCK_RE module_globals of
        Inl e \<Rightarrow> None
      | Inr re \<Rightarrow> map_option (\<lambda>r. (fst r, fst (fst (snd r)), snd (snd r))) (re_search re s))"

definition header_report :: "bool \<Rightarrow> string list" where
  "header_report changed = (if changed then [header_line] else [])"

lemma convert_text_stages:
  "convert_text s k =
     (case ensure_header_has_target_mz module_globals s of
        Inl e \<Rightarrow> Inl e
      | Inr r1 \<Rightarrow>
          (case replace_window_base_methods module_globals (fst r1) of
             Inl e \<Rightarrow> Inl e
           | Inr r2 \<Rightarrow>
               (case replace_colors module_globals (fst r2) k of
                  Inl e \<Rightarrow> Inl e
                | Inr r3 \<Rightarrow>
                    (case annotate_plugin_command_todos module_globals (fst r3) of
                       Inl e \<Rightarrow> Inl e
                     | Inr r4 \<Rightarrow>
                         Inr (fst r4, header_report (snd r1) @ snd r2 @ snd r3 @ snd r4)))))"
  by (simp add: convert_text_def convert_text_run_def header_report_def header_line_def
      split: sum.splits prod.splits)

lemma occurs_method:
  "m \<in> set (WINDOW_BASE_TO_STATUSBASE_METHODS module_globals) \<Longrightarrow>
   occurs (raw ''%bWindow_Base%.prototype%.'' @ re_escape m @ raw ''%b'') s
   = (re_search (word_re (wb_old m)) s \<noteq> None)"
  using method_compiled [of m] by (simp only: occurs_def wb_old_def sum.case)

lemma occurs_color:
  "(name, arg) \<in> set color_calls \<Longrightarrow>
   occurs (fst (color_entry (name, arg))) s = (re_search (call_re name arg) s \<noteq> None)"
  by (simp only: occurs_def color_compiled sum.case)

lemma occurs_sign:
  "occurs (raw ''%bGame_Interpreter%.prototype%.pluginCommand%b'') s
   = (re_search (word_re ''Game_Interpreter.prototype.pluginCommand'') s \<noteq> None)"
  by (simp only: occurs_def sign_compiled sum.case)

lemma first_header_block_eq:
  "first_header_block s
   = map_option (\<lambda>r. (fst r, fst (fst (snd r)), snd (snd r))) (re_search header_re s)"
  by (simp only: first_header_block_def header_compiled sum.case)

lemma for_each_noop:
  assumes "\<And>x. x \<in> set xs \<Longrightarrow> f x st = Inr st"
  shows "for_each f xs st = Inr st"
  using assms by (induction xs) auto

lemma window_base_noop:
  assumes "\<forall>m\<in>set (WINDOW_BASE_TO_STATUSBASE_METHODS module_globals).
             re_search (word_re (wb_old m)) s = None"
  shows "replace_window_base_methods module_globals s = Inr (s, [])"
  unfolding replace_window_base_methods_def
  by (rule for_each_noop) (use assms in \<open>simp add: window_base_step_eq\<close>)

lemma colors_noop:
  assumes "\<forall>e\<in>set color_calls. re_search (call_re (fst e) (snd e)) s = None"
  shows "replace_colors module_globals s k = Inr (s, [])"
proof -
  have "for_each color_step (map color_entry color_calls) (s, []) = Inr (s, [])"
  proof (rule for_each_noop)
    fix x assume "x \<in> set (map color_entry color_calls)"
    then obtain name arg where e: "(name, arg) \<in> set color_calls" "x = color_entry (name, arg)"
      by auto
    with assms have "re_search (call_re name arg) s = None" by fastforce
    then have "re_subn_fun (call_re name arg) f s = (s, 0)" for f
      unfolding re_search_def re_subn_fun_def by (rule search_None_subn)
    with e show "color_step x (s, []) = Inr (s, [])"
      by (simp add: color_step_eq)
  qed
  then show ?thesis by (simp add: replace_colors_def colors_eq)
qed

lemma annotate_noop:
  assumes "re_search (word_re ''Game_Interpreter.prototype.pluginCommand'') s = None"
  shows "annotate_plugin_command_todos module_globals s = Inr (s, [])"
  unfolding annotate_plugin_command_todos_def signs_eq for_each.simps annotate_step_eq
  using assms by simp

lemma ensure_header_none:
  "re_search header_re s = None \<Longrightarrow> ensure_header_has_target_mz module_globals s = Inr (s, False)"
  by (simp add: ensure_header_has_target_mz_def header_compiled)




lemma header_line_not_color:
  "e \<in> set (COLOR_REPLACEMENTS module_globals) \<Longrightarrow> header_line \<noteq> color_line e n"
proof
  assume e: "e \<in> set (COLOR_REPLACEMENTS module_globals)" and "header_line = color_line e n"
  then have "hd header_line = hd (color_line e n)" by simp
  with e show False by (simp add: hd_color_line header_line_def BSL_def)
qed



lemma color_line_not_header:
  "e \<in> set (COLOR_REPLACEMENTS module_globals) \<Longrightarrow> color_line e n \<noteq> header_line"
  using header_line_not_color by metis

lemma color_line_not_wb:
  assumes "e \<in> set (COLOR_REPLACEMENTS module_globals)"
  shows "color_line e n \<noteq> wb_line m"
proof
  assume "color_line e n = wb_line m"
  then have "hd (color_line e n) = hd (wb_line m)" by simp
  with assms show False by (simp add: hd_wb_line hd_color_line BSL_def)
qed

lemma color_line_not_annotate:
  assumes "e \<in> set (COLOR_REPLACEMENTS module_globals)"
  shows "color_line e n \<noteq> annotate_line"
proof
  assume "color_line e n = annotate_line"
  then have "hd (color_line e n) = hd annotate_line" by simp
  with assms show False by (simp add: annotate_line_def hd_color_line BSL_def)
qed


text \<open>Two equations that let the simplifier run the matcher faster on a given text.\<close>

lemma rmatch_WordB_Single:
  "rmatch (WordB # One (Single c) # r) p (x # xs) =
     (if x = c then
        (if at_boundary p (x # xs) then map_option (consume x False) (rmatch r (Some x) xs)
         else None)
      else None)"
  by simp

lemma rmatch_WordB_end: "rmatch [WordB] p s = (if at_boundary p s then Some ([], []) else None)"
  by simp

lemma rmatch_WordB_Nil: "rmatch (WordB # One cs # r) p [] = None"
  by simp

lemmas run_defs = re_search_def re_subn_fun_def word_re_def call_re_def header_re_def lits_def
  at_boundary_def word_before_def word_after_def consume_def enter_def char_defs
  wb_old_def wb_new_def rmatch_WordB_Single rmatch_WordB_end rmatch_WordB_Nil



























section \<open>The claims\<close>



text \<open>
  C7.  A text in which no recognised pattern occurs (no header block, no qualified
  \<open>Window_Base\<close> method of the catalog, no color helper call, no plugin command hook),
  the empty document among them, is returned unchanged with an empty report.
\<close>

theorem nothing_recognised:
  assumes "first_header_block s = None"
    and "\<forall>m\<in>set (WINDOW_BASE_TO_STATUSBASE_METHODS module_globals).
           \<not> occurs (raw ''%bWindow_Base%.prototype%.'' @ re_escape m @ raw ''%b'') s"
    and "\<forall>e\<in>set (COLOR_REPLACEMENTS module_globals). \<not> occurs (fst e) s"
    and "\<forall>sig\<in>set (MV_PLUGIN_COMMAND_SIGNS module_globals). \<not> occurs sig s"
  shows "convert_text s k = Inr (s, [])"
proof -
  from assms(1) have h: "re_search header_re s = None"
    by (simp add: first_header_block_eq)
  have w: "\<forall>m\<in>set (WINDOW_BASE_TO_STATUSBASE_METHODS module_globals).
      re_search (word_re (wb_old m)) s = None"
  proof
    fix m assume i: "m \<in> set (WINDOW_BASE_TO_STATUSBASE_METHODS module_globals)"
    with assms(2)
    have "\<not> occurs (raw ''%bWindow_Base%.prototype%.'' @ re_escape m @ raw ''%b'') s"
      by blast
    then show "re_search (word_re (wb_old m)) s = None"
      by (simp only: occurs_method [OF i] not_not)
  qed
  have c: "\<forall>e\<in>set color_calls. re_search (call_re (fst e) (snd e)) s = None"
  proof
    fix e assume e: "e \<in> set color_calls"
    then have "color_entry e \<in> set (COLOR_REPLACEMENTS module_globals)"
      by (simp add: colors_eq)
    with assms(3) have n: "\<not> occurs (fst (color_entry (fst e, snd e))) s" by simp
    from e have i: "(fst e, snd e) \<in> set color_calls" by simp
    from n show "re_search (call_re (fst e) (snd e)) s = None"
      by (simp only: occurs_color [OF i] not_not)
  qed
  from assms(4) have "\<not> occurs (raw ''%bGame_Interpreter%.prototype%.pluginCommand%b'') s"
    unfolding signs_eq by simp
  then have a: "re_search (word_re ''Game_Interpreter.prototype.pluginCommand'') s = None"
    by (simp only: occurs_sign not_not)
  show ?thesis
    by (simp add: convert_text_stages ensure_header_none [OF h] window_base_noop [OF w]
        colors_noop [OF c] annotate_noop [OF a] header_report_def)
qed

theorem nothing_recognised_witness:
  "convert_text ''var x = 1;'' False = Inr (''var x = 1;'', [])
   \<and> convert_text [] True = Inr ([], [])"
proof -
  have m: "\<forall>m\<in>set (WINDOW_BASE_TO_STATUSBASE_METHODS module_globals).
      \<not> occurs (raw ''%bWindow_Base%.prototype%.'' @ re_escape m @ raw ''%b'') s"
    if h: "\<forall>m\<in>set (WINDOW_BASE_TO_STATUSBASE_METHODS module_globals).
          re_search (word_re (wb_old m)) s = None" for s
  proof
    fix m assume i: "m \<in> set (WINDOW_BASE_TO_STATUSBASE_METHODS module_globals)"
    with h have "re_search (word_re (wb_old m)) s = None" by blast
    then show "\<not> occurs (raw ''%bWindow_Base%.prototype%.'' @ re_escape m @ raw ''%b'') s"
      by (simp only: occurs_method [OF i] not_not)
  qed
  have c: "\<forall>e\<in>set (COLOR_REPLACEMENTS module_globals). \<not> occurs (fst e) s"
    if h: "\<forall>e\<in>set color_calls. re_search (call_re (fst e) (snd e)) s = None" for s
  proof
    fix e assume "e \<in> set (COLOR_REPLACEMENTS module_globals)"
    then obtain name arg where i: "(name, arg) \<in> set color_calls" and e: "e = color_entry (name, arg)"
      by (auto simp: colors_eq)
    from h i have "re_search (call_re name arg) s = None" by fastforce
    then show "\<not> occurs (fst e) s"
      by (simp only: e occurs_color [OF i] not_not)
  qed
  have g: "\<forall>sig\<in>set (MV_PLUGIN_COMMAND_SIGNS module_globals). \<not> occurs sig s"
    if "re_search (word_re ''Game_Interpreter.prototype.pluginCommand'') s = None" for s
    unfolding signs_eq using that by (simp add: occurs_sign del: not_None_eq)
  have "convert_text ''var x = 1;'' False = Inr (''var x = 1;'', [])"
  proof (rule nothing_recognised)
    show "first_header_block ''var x = 1;'' = None"
      by (simp add: first_header_block_eq eval_defs)
    show "\<forall>m\<in>set (WINDOW_BASE_TO_STATUSBASE_METHODS module_globals).
      \<not> occurs (raw ''%bWindow_Base%.prototype%.'' @ re_escape m @ raw ''%b'') ''var x = 1;''"
      by (rule m) (simp add: methods_eq eval_defs)
    show "\<forall>e\<in>set (COLOR_REPLACEMENTS module_globals). \<not> occurs (fst e) ''var x = 1;''"
      by (rule c) (simp add: color_calls_def eval_defs)
    show "\<forall>sig\<in>set (MV_PLUGIN_COMMAND_SIGNS module_globals). \<not> occurs sig ''var x = 1;''"
      by (rule g) (simp add: eval_defs)
  qed
  moreover have "convert_text [] True = Inr ([], [])"
  proof (rule nothing_recognised)
    show "first_header_block [] = None"
      by (simp add: first_header_block_eq eval_defs)
    show "\<forall>m\<in>set (WINDOW_BASE_TO_STATUSBASE_METHODS module_globals).
      \<not> occurs (raw ''%bWindow_Base%.prototype%.'' @ re_escape m @ raw ''%b'') []"
      by (rule m) (simp add: methods_eq eval_defs)
    show "\<forall>e\<in>set (COLOR_REPLACEMENTS module_globals). \<not> occurs (fst e) []"
      by (rule c) (simp add: color_calls_def eval_defs)
    show "\<forall>sig\<in>set (MV_PLUGIN_COMMAND_SIGNS module_globals). \<not> occurs sig []"
      by (rule g) (simp add: eval_defs)
  qed
  ultimately show ?thesis by simp
qed



text \<open>
  C6.  With the skip flag set the call-pattern stage returns its input and an empty change
  list.  \<open>convert_text\<close> then is the composition of the other three stages, and no line
  of its report is a line of the call-pattern stage.
\<close>

theorem skip_flag_frame:
  "replace_colors g source True = Inr (source, [])
   \<and> convert_text source True =
       (case ensure_header_has_target_mz module_globals source of
          Inl e \<Rightarrow> Inl e
        | Inr r1 \<Rightarrow>
            (case replace_window_base_methods module_globals (fst r1) of
               Inl e \<Rightarrow> Inl e
             | Inr r2 \<Rightarrow>
                 (case annotate_plugin_command_todos module_globals (fst r2) of
                    Inl e \<Rightarrow> Inl e
                  | Inr r4 \<Rightarrow> Inr (fst r4, header_report (snd r1) @ snd r2 @ snd r4))))
   \<and> (\<forall>t rep. convert_text source True = Inr (t, rep) \<longrightarrow>
         (\<forall>e\<in>set (COLOR_REPLACEMENTS module_globals). \<forall>n. color_line e n \<notin> set rep))"
proof -
  have a: "replace_colors g source True = Inr (source, [])"
    by (simp add: replace_colors_def)
  have b: "convert_text source True =
       (case ensure_header_has_target_mz module_globals source of
          Inl e \<Rightarrow> Inl e
        | Inr r1 \<Rightarrow>
            (case replace_window_base_methods module_globals (fst r1) of
               Inl e \<Rightarrow> Inl e
             | Inr r2 \<Rightarrow>
                 (case annotate_plugin_command_todos module_globals (fst r2) of
                    Inl e \<Rightarrow> Inl e
                  | Inr r4 \<Rightarrow> Inr (fst r4, header_report (snd r1) @ snd r2 @ snd r4))))"
    by (simp add: convert_text_stages replace_colors_def split: sum.splits)
  have c: "color_line e n \<notin> set rep"
    if r: "convert_text source True = Inr (t, rep)"
      and e: "e \<in> set (COLOR_REPLACEMENTS module_globals)" for t rep e n
  proof -
    from r b obtain r1 r2 r4 where
      s2: "replace_window_base_methods module_globals (fst r1) = Inr r2"
      and s4: "annotate_plugin_command_todos module_globals (fst r2) = Inr r4"
      and rep: "rep = header_report (snd r1) @ snd r2 @ snd r4"
      by (auto split: sum.splits)
    have "color_line e n \<notin> set (header_report (snd r1))"
      using color_line_not_header [OF e] by (simp add: header_report_def)
    moreover have "color_line e n \<notin> set (snd r2)"
      using window_base_lines [of "fst r1" "fst r2" "snd r2"] s2 color_line_not_wb [OF e]
      by auto
    moreover have "color_line e n \<notin> set (snd r4)"
      using annotate_lines [of "fst r2" "fst r4" "snd r4"] s4 color_line_not_annotate [OF e]
      by auto
    ultimately show ?thesis by (simp add: rep)
  qed
  from a b c show ?thesis by blast
qed

theorem skip_flag_frame_witness:
  "convert_text ''this.textColor(Window_Base.prototype.drawActorHp)'' True
     = Inr (''this.textColor(Window_StatusBase.prototype.drawActorHp)'', [wb_line ''drawActorHp''])
   \<and> color_line (color_entry (''textColor'', True)) 1 \<notin> set [wb_line ''drawActorHp'']"
proof -
  let ?s = "''this.textColor(Window_Base.prototype.drawActorHp)''"
  let ?t = "''this.textColor(Window_StatusBase.prototype.drawActorHp)''"
  have h: "ensure_header_has_target_mz module_globals ?s = Inr (?s, False)"
    by (rule ensure_header_none) (simp add: run_defs del: rmatch.simps(2))
  have w: "replace_window_base_methods module_globals ?s = Inr (?t, [wb_line ''drawActorHp''])"
    unfolding replace_window_base_methods_def methods_eq
    by (simp add: window_base_step_eq methods_eq run_defs wb_line_def del: rmatch.simps(2))
  have a: "annotate_plugin_command_todos module_globals ?t = Inr (?t, [])"
    by (rule annotate_noop) (simp add: run_defs del: rmatch.simps(2))
  have c: "convert_text ?s True = Inr (?t, [wb_line ''drawActorHp''])"
    using skip_flag_frame [of module_globals ?s] by (simp add: h w a header_report_def)
  have e: "color_entry (''textColor'', True) \<in> set (COLOR_REPLACEMENTS module_globals)"
    by (simp add: colors_eq color_calls_def)
  from skip_flag_frame [of module_globals ?s] c e show ?thesis by blast
qed







end
